theory Spec2Isabelle
  imports Main "HOL-Library.Word"
begin

unbundle bit_operations_syntax

section \<open>AES integer counter mode on the HiSilicon cipher engine\<close>

text \<open>
  A shallow embedding of \<^verbatim>\<open>crypto/cipher/aes_icm_hisi.c\<close>: the five entry points of
  the cipher module (\<^verbatim>\<open>alloc\<close>, \<^verbatim>\<open>dealloc\<close>, \<^verbatim>\<open>context_init\<close>, \<^verbatim>\<open>set_iv\<close>,
  \<^verbatim>\<open>encrypt\<close>) as functions that take the memory they read and return the memory they
  write. Debug printing (\<^verbatim>\<open>debug_print\<close>, \<^verbatim>\<open>printf\<close>, \<^verbatim>\<open>hexDump\<close>) has no effect on
  the cipher state and is left out.
\<close>

subsection \<open>Basic types and constants\<close>

type_synonym octet = "8 word"

text \<open>
  \<^verbatim>\<open>v128_t\<close> is a union over a 16-octet block; the source reads and writes it through
  its \<^verbatim>\<open>v8\<close> view, so the model is the list of its 16 octets, \<^verbatim>\<open>v8[0]\<close> first.
\<close>

type_synonym v128_t = "octet list"

type_synonym addr = nat

datatype srtp_err_status_t =
    srtp_err_status_ok
  | srtp_err_status_fail
  | srtp_err_status_bad_param
  | srtp_err_status_alloc_fail
  | srtp_err_status_cipher_fail

datatype srtp_cipher_direction_t =
    srtp_direction_encrypt
  | srtp_direction_decrypt
  | srtp_direction_any

text \<open>
  A call either returns or stops the process in a failed \<^verbatim>\<open>assert\<close>.
\<close>

datatype 'a outcome = Aborted | Returned 'a

text \<open>
  Modelled from the spec: the length constants of \<^verbatim>\<open>crypto_types.h\<close>/\<^verbatim>\<open>cipher.h\<close>,
  which are not part of the source file. The salt is 112 bits; the raw AES keys are 16,
  24 and 32 octets; the lengths "with salt" are 30, 38 and 46 (the comment above
  \<^verbatim>\<open>srtp_aes_icm_hisi_alloc\<close> names the same three values).
\<close>

definition SRTP_SALT_LEN :: nat where
  "SRTP_SALT_LEN = 14"

definition SRTP_AES_128_KEY_LEN :: nat where
  "SRTP_AES_128_KEY_LEN = 16"

definition SRTP_AES_192_KEY_LEN :: nat where
  "SRTP_AES_192_KEY_LEN = 24"

definition SRTP_AES_256_KEY_LEN :: nat where
  "SRTP_AES_256_KEY_LEN = 32"

definition SRTP_AES_ICM_128_KEY_LEN_WSALT :: int where
  "SRTP_AES_ICM_128_KEY_LEN_WSALT = int (SRTP_SALT_LEN + SRTP_AES_128_KEY_LEN)"

definition SRTP_AES_ICM_192_KEY_LEN_WSALT :: int where
  "SRTP_AES_ICM_192_KEY_LEN_WSALT = int (SRTP_SALT_LEN + SRTP_AES_192_KEY_LEN)"

definition SRTP_AES_ICM_256_KEY_LEN_WSALT :: int where
  "SRTP_AES_ICM_256_KEY_LEN_WSALT = int (SRTP_SALT_LEN + SRTP_AES_256_KEY_LEN)"

text \<open>
  The cipher identifiers stored in \<^verbatim>\<open>srtp_cipher_t.algorithm\<close>. Freshly cleared memory
  holds the value 0, which is \<^verbatim>\<open>SRTP_NULL_CIPHER\<close>.
\<close>

datatype srtp_cipher_type_id_t =
    SRTP_NULL_CIPHER
  | SRTP_AES_ICM_128
  | SRTP_AES_ICM_192
  | SRTP_AES_ICM_256

text \<open>
  The three function tables at the end of the file; \<^verbatim>\<open>srtp_cipher_t.type\<close> points to one
  of them or is null.
\<close>

datatype srtp_cipher_type_t =
    srtp_aes_icm_128
  | srtp_aes_icm_192
  | srtp_aes_icm_256

subsection \<open>The vendor engine\<close>

datatype HI_UNF_CIPHER_ALG_E = HI_UNF_CIPHER_ALG_AES

datatype HI_UNF_CIPHER_KEY_LENGTH_E =
    HI_UNF_CIPHER_KEY_AES_128BIT
  | HI_UNF_CIPHER_KEY_AES_192BIT
  | HI_UNF_CIPHER_KEY_AES_256BIT

datatype HI_UNF_CIPHER_BIT_WIDTH_E = HI_UNF_CIPHER_BIT_WIDTH_128BIT

datatype HI_UNF_CIPHER_KEY_SRC_E = HI_UNF_CIPHER_KEY_SRC_USER

datatype HI_UNF_CIPHER_WORK_MODE_E = HI_UNF_CIPHER_WORK_MODE_CTR

text \<open>
  The fields of \<^verbatim>\<open>HI_UNF_CIPHER_CTRL_S\<close> that \<^verbatim>\<open>set_iv\<close> assigns after clearing the
  structure; \<^verbatim>\<open>u32Key\<close> is 32 octets wide and \<^verbatim>\<open>u32IV\<close> 16.
\<close>

record HI_UNF_CIPHER_CTRL_S =
  enAlg :: HI_UNF_CIPHER_ALG_E
  enKeyLen :: HI_UNF_CIPHER_KEY_LENGTH_E
  enBitWidth :: HI_UNF_CIPHER_BIT_WIDTH_E
  enKeySrc :: HI_UNF_CIPHER_KEY_SRC_E
  enWorkMode :: HI_UNF_CIPHER_WORK_MODE_E
  bit1IV :: nat
  u32Key :: "octet list"
  u32IV :: "octet list"

text \<open>
  The engine is outside the file. It is taken as a parameter: a record of the five
  vendor calls the file makes, over an engine state \<open>'e\<close> of the caller's choosing. Each
  call returns the vendor's \<^verbatim>\<open>HI_S32\<close> result code first (0 is success).
  \<^verbatim>\<open>HI_UNF_CIPHER_EncryptVir\<close> reads its source buffer and writes a destination buffer of
  its own; the model returns the destination octets.
\<close>

record 'e hi_unf_cipher =
  HI_UNF_CIPHER_Init :: "'e \<Rightarrow> int \<times> 'e"
  HI_UNF_CIPHER_CreateHandle :: "'e \<Rightarrow> int \<times> nat \<times> 'e"
  HI_UNF_CIPHER_DestroyHandle :: "'e \<Rightarrow> nat \<Rightarrow> int \<times> 'e"
  HI_UNF_CIPHER_ConfigHandle :: "'e \<Rightarrow> nat \<Rightarrow> HI_UNF_CIPHER_CTRL_S \<Rightarrow> int \<times> 'e"
  HI_UNF_CIPHER_EncryptVir :: "'e \<Rightarrow> nat \<Rightarrow> octet list \<Rightarrow> 32 word \<Rightarrow> int \<times> octet list \<times> 'e"

subsection \<open>Cipher state\<close>

text \<open>
  \<^verbatim>\<open>srtp_aes_icm_ctx_t\<close>: the working counter, the fixed offset, the pointer to the
  stored key (\<open>None\<close> is the null pointer), the raw key length, the engine's key-length
  code and the engine handle. The structure is declared in \<^verbatim>\<open>aes_icm_ext.h\<close>, outside the
  file; the fields are the ones the file reads and writes. \<^verbatim>\<open>key_size\<close> is a count of
  octets (the file stores 16 or 32 in it, or leaves it cleared), so it is a natural
  number here.
\<close>

record srtp_aes_icm_ctx_t =
  counter :: v128_t
  offset :: v128_t
  key :: "addr option"
  key_size :: nat
  key_type :: HI_UNF_CIPHER_KEY_LENGTH_E
  hCipher :: nat

text \<open>
  \<^verbatim>\<open>srtp_cipher_t\<close> (declared in \<^verbatim>\<open>cipher.h\<close>, outside the file), with the four
  fields the file assigns. The context it points to is held by value (\<open>None\<close> is a null
  \<^verbatim>\<open>state\<close> pointer), so an assignment through \<^verbatim>\<open>icm\<close> after
  \<^verbatim>\<open>(*c)->state = icm\<close> is an update of the \<open>state\<close> field.
\<close>

record srtp_cipher_t =
  type :: "srtp_cipher_type_t option"
  state :: "srtp_aes_icm_ctx_t option"
  key_len :: int
  algorithm :: srtp_cipher_type_id_t

text \<open>
  The key is kept in a buffer of its own, obtained from \<^verbatim>\<open>malloc\<close> and given back with
  \<^verbatim>\<open>free\<close>. The store maps the address of each live buffer to its octets; \<open>brk\<close> is the
  next address \<^verbatim>\<open>malloc\<close> hands out; \<open>released\<close> records, latest first, the octets each
  buffer held at the moment it was passed to \<^verbatim>\<open>free\<close>.
\<close>

record heap =
  blocks :: "addr \<rightharpoonup> octet list"
  brk :: addr
  released :: "octet list list"

text \<open>
  Calls to the library allocator \<^verbatim>\<open>srtp_crypto_alloc\<close>/\<^verbatim>\<open>srtp_crypto_free\<close>, in the
  order they are made. A freed context is recorded with the contents it had when freed.
\<close>

datatype crypto_mem_call =
    Alloc_cipher
  | Alloc_ctx
  | Free_cipher
  | Free_ctx srtp_aes_icm_ctx_t

subsection \<open>Memory primitives\<close>

text \<open>
  \<^verbatim>\<open>memcpy(dst, src, n)\<close> on octet lists: the first \<open>n\<close> octets of \<open>dst\<close> are replaced
  by the first \<open>n\<close> octets of \<open>src\<close>. C requires both regions to hold \<open>n\<close> octets; the
  theorems below state that as a hypothesis where they depend on it.
\<close>

definition memcpy :: "octet list \<Rightarrow> octet list \<Rightarrow> nat \<Rightarrow> octet list" where
  "memcpy dst src n = take n src @ drop n dst"

text \<open>
  \<^verbatim>\<open>malloc\<close> returns a fresh buffer (its octets are indeterminate in C; every caller in
  this file overwrites all of them at once). The source never tests the result for
  null, so the model covers the runs in which the request is served.
\<close>

definition malloc :: "heap \<Rightarrow> nat \<Rightarrow> addr \<times> heap" where
  "malloc h n =
     (brk h, h\<lparr>blocks := (blocks h)(brk h \<mapsto> replicate n 0), brk := Suc (brk h)\<rparr>)"

definition free :: "heap \<Rightarrow> addr \<Rightarrow> heap" where
  "free h p =
     (case blocks h p of
        None \<Rightarrow> h
      | Some bs \<Rightarrow> h\<lparr>blocks := (blocks h)(p := None), released := bs # released h\<rparr>)"

definition heap_memcpy :: "heap \<Rightarrow> addr \<Rightarrow> octet list \<Rightarrow> nat \<Rightarrow> heap" where
  "heap_memcpy h p src n =
     (case blocks h p of
        None \<Rightarrow> h
      | Some bs \<Rightarrow> h\<lparr>blocks := (blocks h)(p \<mapsto> memcpy bs src n)\<rparr>)"

definition heap_read :: "heap \<Rightarrow> addr \<Rightarrow> octet list" where
  "heap_read h p = (case blocks h p of None \<Rightarrow> [] | Some bs \<Rightarrow> bs)"

text \<open>
  Modelled from the spec: the \<^verbatim>\<open>v128\<close> helpers of \<^verbatim>\<open>datatypes.h\<close>, which are not part
  of the source file. \<^verbatim>\<open>v128_set_to_zero\<close> clears all 16 octets,
  \<^verbatim>\<open>v128_copy_octet_string\<close> loads the 16 octets at a pointer, and \<^verbatim>\<open>v128_xor\<close> is the
  octet-wise exclusive or of two blocks.
\<close>

definition v128_set_to_zero :: v128_t where
  "v128_set_to_zero = replicate 16 0"

definition v128_copy_octet_string :: "octet list \<Rightarrow> v128_t" where
  "v128_copy_octet_string s = take 16 s"

definition v128_xor :: "v128_t \<Rightarrow> v128_t \<Rightarrow> v128_t" where
  "v128_xor x y = map2 (XOR) x y"

text \<open>
  Modelled from the spec: \<^verbatim>\<open>octet_string_set_to_zero\<close> of \<^verbatim>\<open>datatypes.h\<close>, applied to a
  whole context structure: every field becomes the all-zero bit pattern, so the key
  pointer becomes null and the enumeration takes its first value.
\<close>

definition octet_string_set_to_zero :: "srtp_aes_icm_ctx_t \<Rightarrow> srtp_aes_icm_ctx_t" where
  "octet_string_set_to_zero c =
     c\<lparr>counter := replicate 16 0, offset := replicate 16 0, key := None, key_size := 0,
       key_type := HI_UNF_CIPHER_KEY_AES_128BIT, hCipher := 0\<rparr>"

subsection \<open>Allocate\<close>

text \<open>
  \<^verbatim>\<open>srtp_aes_icm_hisi_alloc(c, key_len, tlen)\<close>, with \<open>klen\<close> for the parameter
  \<^verbatim>\<open>key_len\<close> (the cipher object has a field of that name). \<open>new_c\<close> and \<open>new_icm\<close> are what the two
  \<^verbatim>\<open>srtp_crypto_alloc\<close> calls return (\<open>None\<close> for a null result, otherwise the contents
  of the fresh object); \<open>cref\<close> is the value of \<^verbatim>\<open>*c\<close> on entry. The result carries the
  value of \<^verbatim>\<open>*c\<close> on exit, the engine state and the allocator calls made.
\<close>

definition srtp_aes_icm_hisi_alloc ::
  "'e hi_unf_cipher \<Rightarrow> 'e \<Rightarrow> srtp_cipher_t option \<Rightarrow> srtp_aes_icm_ctx_t option \<Rightarrow>
   srtp_cipher_t option \<Rightarrow> int \<Rightarrow> int \<Rightarrow>
   (srtp_err_status_t \<times> srtp_cipher_t option \<times> 'e \<times> crypto_mem_call list) outcome"
where
  "srtp_aes_icm_hisi_alloc eng e new_c new_icm cref klen tlen =
     (if klen \<noteq> SRTP_AES_ICM_128_KEY_LEN_WSALT \<and>
         klen \<noteq> SRTP_AES_ICM_192_KEY_LEN_WSALT \<and>
         klen \<noteq> SRTP_AES_ICM_256_KEY_LEN_WSALT
      then Returned (srtp_err_status_bad_param, cref, e, [])
      else case new_c of
        None \<Rightarrow> Returned (srtp_err_status_alloc_fail, None, e, [Alloc_cipher])
      | Some c0 \<Rightarrow>
         (case new_icm of
            None \<Rightarrow>
              Returned (srtp_err_status_alloc_fail, None, e,
                        [Alloc_cipher, Alloc_ctx, Free_cipher])
          | Some icm0 \<Rightarrow>
             (case HI_UNF_CIPHER_Init eng e of (res, e1) \<Rightarrow>
                if res \<noteq> 0 then Aborted
                else case HI_UNF_CIPHER_CreateHandle eng e1 of (res2, hdl, e2) \<Rightarrow>
                  let icm1 = icm0\<lparr>hCipher := hdl\<rparr> in
                  if res2 \<noteq> 0
                  then Returned (srtp_err_status_alloc_fail, None, e2,
                                 [Alloc_cipher, Alloc_ctx, Free_ctx icm1, Free_cipher])
                  else
                    let c1 =
                          (if klen = SRTP_AES_ICM_128_KEY_LEN_WSALT
                           then c0\<lparr>type := Some srtp_aes_icm_128,
                                   state := Some (icm1\<lparr>key_size := SRTP_AES_128_KEY_LEN\<rparr>),
                                   algorithm := SRTP_AES_ICM_128\<rparr>
                           else if klen = SRTP_AES_ICM_192_KEY_LEN_WSALT
                           then c0\<lparr>state := Some icm1\<rparr>
                           else if klen = SRTP_AES_ICM_256_KEY_LEN_WSALT
                           then c0\<lparr>type := Some srtp_aes_icm_256,
                                   state := Some (icm1\<lparr>key_size := SRTP_AES_256_KEY_LEN\<rparr>),
                                   algorithm := SRTP_AES_ICM_256\<rparr>
                           else c0\<lparr>state := Some icm1\<rparr>)
                    in Returned (srtp_err_status_ok, Some (c1\<lparr>key_len := klen\<rparr>), e2,
                                 [Alloc_cipher, Alloc_ctx]))))"

subsection \<open>Deallocate\<close>

text \<open>
  \<^verbatim>\<open>srtp_aes_icm_hisi_dealloc(c)\<close>; \<open>cref\<close> is the pointer \<^verbatim>\<open>c\<close>. The context
  structure is cleared and freed, then the cipher object is freed. The key buffer the
  context points to is not touched, so the store is returned as it came.
\<close>

definition srtp_aes_icm_hisi_dealloc ::
  "'e hi_unf_cipher \<Rightarrow> 'e \<Rightarrow> heap \<Rightarrow> srtp_cipher_t option \<Rightarrow>
   (srtp_err_status_t \<times> crypto_mem_call list \<times> heap \<times> 'e) outcome"
where
  "srtp_aes_icm_hisi_dealloc eng e h cref =
     (case cref of
        None \<Rightarrow> Returned (srtp_err_status_bad_param, [], h, e)
      | Some c \<Rightarrow>
         (case state c of
            None \<Rightarrow> Returned (srtp_err_status_ok, [Free_cipher], h, e)
          | Some ctx \<Rightarrow>
             (case HI_UNF_CIPHER_DestroyHandle eng e (hCipher ctx) of (res, e1) \<Rightarrow>
                if res \<noteq> 0 then Aborted
                else Returned (srtp_err_status_ok,
                               [Free_ctx (octet_string_set_to_zero ctx), Free_cipher],
                               h, e1))))"

subsection \<open>Initialize\<close>

text \<open>
  \<^verbatim>\<open>srtp_aes_icm_hisi_context_init(cv, key)\<close>; \<open>k\<close> is the octets at the pointer
  \<^verbatim>\<open>key\<close>. The statements are kept in the source's order: the key buffer is replaced
  before the key size is examined, so a state with an unsupported key size is changed
  all the same.
\<close>

definition srtp_aes_icm_hisi_context_init ::
  "heap \<Rightarrow> srtp_aes_icm_ctx_t \<Rightarrow> octet list \<Rightarrow>
   srtp_err_status_t \<times> srtp_aes_icm_ctx_t \<times> heap"
where
  "srtp_aes_icm_hisi_context_init h c k =
     (let c1 = c\<lparr>counter := v128_set_to_zero\<rparr>;
          c2 = c1\<lparr>offset := v128_set_to_zero\<rparr>;
          c3 = c2\<lparr>counter := memcpy (counter c2) (drop (key_size c2) k) SRTP_SALT_LEN\<rparr>;
          c4 = c3\<lparr>offset := memcpy (offset c3) (drop (key_size c3) k) SRTP_SALT_LEN\<rparr>;
          c5 = c4\<lparr>offset := (offset c4)[SRTP_SALT_LEN + 1 := 0, SRTP_SALT_LEN := 0]\<rparr>;
          c6 = c5\<lparr>counter := (counter c5)[SRTP_SALT_LEN + 1 := 0, SRTP_SALT_LEN := 0]\<rparr>;
          h1 = (case key c6 of None \<Rightarrow> h | Some p \<Rightarrow> free h p);
          c7 = (case key c6 of None \<Rightarrow> c6 | Some p \<Rightarrow> c6\<lparr>key := None\<rparr>);
          (p, h2) = malloc h1 (key_size c7);
          c8 = c7\<lparr>key := Some p\<rparr>;
          h3 = heap_memcpy h2 p k (key_size c8)
      in if key_size c8 = SRTP_AES_256_KEY_LEN
         then (srtp_err_status_ok, c8\<lparr>key_type := HI_UNF_CIPHER_KEY_AES_256BIT\<rparr>, h3)
         else if key_size c8 = SRTP_AES_192_KEY_LEN
         then (srtp_err_status_ok, c8\<lparr>key_type := HI_UNF_CIPHER_KEY_AES_192BIT\<rparr>, h3)
         else if key_size c8 = SRTP_AES_128_KEY_LEN
         then (srtp_err_status_ok, c8\<lparr>key_type := HI_UNF_CIPHER_KEY_AES_128BIT\<rparr>, h3)
         else (srtp_err_status_bad_param, c8, h3))"

subsection \<open>SetIV\<close>

text \<open>
  \<^verbatim>\<open>srtp_aes_icm_hisi_set_iv(cv, iv, dir)\<close>; \<open>iv\<close> is the octets at the pointer
  \<^verbatim>\<open>iv\<close>. The counter is written before the engine is configured, so it is set whether
  or not the engine accepts the configuration.
\<close>

definition srtp_aes_icm_hisi_set_iv ::
  "'e hi_unf_cipher \<Rightarrow> 'e \<Rightarrow> heap \<Rightarrow> srtp_aes_icm_ctx_t \<Rightarrow> octet list \<Rightarrow>
   srtp_cipher_direction_t \<Rightarrow> srtp_err_status_t \<times> srtp_aes_icm_ctx_t \<times> 'e"
where
  "srtp_aes_icm_hisi_set_iv eng e h c iv dir =
     (case key c of
        None \<Rightarrow> (srtp_err_status_bad_param, c, e)
      | Some p \<Rightarrow>
          let nonce = v128_copy_octet_string iv;
              c1 = c\<lparr>counter := v128_xor (offset c) nonce\<rparr>;
              stCtrl = \<lparr>enAlg = HI_UNF_CIPHER_ALG_AES,
                        enKeyLen = key_type c1,
                        enBitWidth = HI_UNF_CIPHER_BIT_WIDTH_128BIT,
                        enKeySrc = HI_UNF_CIPHER_KEY_SRC_USER,
                        enWorkMode = HI_UNF_CIPHER_WORK_MODE_CTR,
                        bit1IV = 1,
                        u32Key = memcpy (replicate 32 0) (heap_read h p) (key_size c1),
                        u32IV = memcpy (replicate 16 0) (counter c1) 16\<rparr>
          in case HI_UNF_CIPHER_ConfigHandle eng e (hCipher c1) stCtrl of (res, e1) \<Rightarrow>
               if res \<noteq> 0 then (srtp_err_status_fail, c1, e1)
               else (srtp_err_status_ok, c1, e1))"

subsection \<open>Transform\<close>

text \<open>
  \<^verbatim>\<open>srtp_aes_icm_hisi_encrypt(cv, buf, enc_len)\<close>, used for both directions. \<open>buf\<close> is
  the caller's buffer and \<open>enc_len\<close> the \<^verbatim>\<open>unsigned int\<close> at the pointer \<^verbatim>\<open>enc_len\<close>.
  The engine writes into the local array \<^verbatim>\<open>soutbuf\<close> of 8192 octets, which is copied
  back over the caller's buffer only after the engine has reported success. The result
  carries the context, the caller's buffer, the length and the engine state on return.
\<close>

definition srtp_aes_icm_hisi_encrypt ::
  "'e hi_unf_cipher \<Rightarrow> 'e \<Rightarrow> srtp_aes_icm_ctx_t \<Rightarrow> octet list \<Rightarrow> 32 word \<Rightarrow>
   (srtp_err_status_t \<times> srtp_aes_icm_ctx_t \<times> octet list \<times> 32 word \<times> 'e) outcome"
where
  "srtp_aes_icm_hisi_encrypt eng e c buf enc_len =
     (if \<not> (enc_len < 8192) then Aborted
      else if enc_len = 0 then Returned (srtp_err_status_ok, c, buf, enc_len, e)
      else case HI_UNF_CIPHER_EncryptVir eng e (hCipher c) buf enc_len of
        (res, soutbuf, e1) \<Rightarrow>
          if res \<noteq> 0 then Returned (srtp_err_status_cipher_fail, c, buf, enc_len, e1)
          else Returned (srtp_err_status_ok, c, memcpy buf soutbuf (unat enc_len),
                         enc_len, e1))"

subsection \<open>Concrete inputs\<close>

text \<open>
  A software stand-in for the engine, used where a theorem is evaluated on a concrete
  input: every call succeeds, handles are numbered from 1, and the transform flips the
  same bits of every octet. \<open>faulty_engine\<close> differs in that its transform reports an
  error.
\<close>

definition xor_engine :: "nat hi_unf_cipher" where
  "xor_engine =
     \<lparr>HI_UNF_CIPHER_Init = (\<lambda>e. (0, e)),
      HI_UNF_CIPHER_CreateHandle = (\<lambda>e. (0, Suc e, Suc e)),
      HI_UNF_CIPHER_DestroyHandle = (\<lambda>e hdl. (0, e)),
      HI_UNF_CIPHER_ConfigHandle = (\<lambda>e hdl ctrl. (0, e)),
      HI_UNF_CIPHER_EncryptVir =
        (\<lambda>e hdl src n. (0, map (\<lambda>b. b XOR 0x5A) (take (unat n) src), e))\<rparr>"

definition faulty_engine :: "nat hi_unf_cipher" where
  "faulty_engine =
     xor_engine\<lparr>HI_UNF_CIPHER_EncryptVir := (\<lambda>e hdl src n. (- 1, [], e))\<rparr>"

text \<open>Zero-filled objects, as a clearing allocator returns them, and an empty store.\<close>

definition zero_ctx :: srtp_aes_icm_ctx_t where
  "zero_ctx =
     \<lparr>counter = replicate 16 0, offset = replicate 16 0, key = None, key_size = 0,
      key_type = HI_UNF_CIPHER_KEY_AES_128BIT, hCipher = 0\<rparr>"

definition zero_cipher :: srtp_cipher_t where
  "zero_cipher = \<lparr>type = None, state = None, key_len = 0, algorithm = SRTP_NULL_CIPHER\<rparr>"

definition empty_heap :: heap where
  "empty_heap = \<lparr>blocks = Map.empty, brk = 1, released = []\<rparr>"

text \<open>The key of the file's AES-128 known-answer test (16 key octets, 14 salt octets).\<close>

definition srtp_aes_icm_128_test_case_0_key :: "octet list" where
  "srtp_aes_icm_128_test_case_0_key =
     [0x2b, 0x7e, 0x15, 0x16, 0x28, 0xae, 0xd2, 0xa6,
      0xab, 0xf7, 0x15, 0x88, 0x09, 0xcf, 0x4f, 0x3c,
      0xf0, 0xf1, 0xf2, 0xf3, 0xf4, 0xf5, 0xf6, 0xf7,
      0xf8, 0xf9, 0xfa, 0xfb, 0xfc, 0xfd]"

text \<open>The key of the file's AES-256 known-answer test (32 key octets, 14 salt octets).\<close>

definition srtp_aes_icm_256_test_case_0_key :: "octet list" where
  "srtp_aes_icm_256_test_case_0_key =
     [0x57, 0xf8, 0x2f, 0xe3, 0x61, 0x3f, 0xd1, 0x70,
      0xa8, 0x5e, 0xc9, 0x3c, 0x40, 0xb1, 0xf0, 0x92,
      0x2e, 0xc4, 0xcb, 0x0d, 0xc0, 0x25, 0xb5, 0x82,
      0x72, 0x14, 0x7c, 0xc4, 0x38, 0x94, 0x4a, 0x98,
      0xf0, 0xf1, 0xf2, 0xf3, 0xf4, 0xf5, 0xf6, 0xf7,
      0xf8, 0xf9, 0xfa, 0xfb, 0xfc, 0xfd]"

text \<open>
  An AES-128 context as \<^verbatim>\<open>alloc\<close> leaves it, and the same context after one
  \<^verbatim>\<open>context_init\<close> with the AES-128 test key on an empty store.
\<close>

definition ctx_128 :: srtp_aes_icm_ctx_t where
  "ctx_128 = zero_ctx\<lparr>key_size := SRTP_AES_128_KEY_LEN, hCipher := 1\<rparr>"

definition keyed_128 :: "srtp_err_status_t \<times> srtp_aes_icm_ctx_t \<times> heap" where
  "keyed_128 =
     srtp_aes_icm_hisi_context_init empty_heap ctx_128 srtp_aes_icm_128_test_case_0_key"

section \<open>Auxiliary facts\<close>

lemmas fixture_defs =
  xor_engine_def faulty_engine_def zero_ctx_def zero_cipher_def empty_heap_def ctx_128_def

lemmas const_defs =
  SRTP_SALT_LEN_def SRTP_AES_128_KEY_LEN_def SRTP_AES_192_KEY_LEN_def
  SRTP_AES_256_KEY_LEN_def SRTP_AES_ICM_128_KEY_LEN_WSALT_def
  SRTP_AES_ICM_192_KEY_LEN_WSALT_def SRTP_AES_ICM_256_KEY_LEN_WSALT_def

text \<open>
  The salt block that \<^verbatim>\<open>context_init\<close> builds in both the offset and the counter:
  14 octets copied over a cleared block, then octets 15 and 14 set to zero.
\<close>

lemma salted_block:
  assumes "14 \<le> length s"
  shows "(memcpy (replicate 16 0) s 14)[15 := 0, 14 := 0] = take 14 s @ [0, 0]"
proof -
  have r: "drop 14 (replicate 16 (0::octet)) = [0, 0]"
    by (simp add: numeral_eq_Suc)
  have l: "length (take 14 s) = 14"
    using assms by simp
  show ?thesis
    unfolding memcpy_def r using l by (simp add: list_update_append)
qed

lemma context_init_fields:
  assumes "key_size c + 14 \<le> length k"
  shows "offset (fst (snd (srtp_aes_icm_hisi_context_init h c k))) =
           take 14 (drop (key_size c) k) @ [0, 0]"
    and "counter (fst (snd (srtp_aes_icm_hisi_context_init h c k))) =
           take 14 (drop (key_size c) k) @ [0, 0]"
    and "key (fst (snd (srtp_aes_icm_hisi_context_init h c k))) \<noteq> None"
    and "key_size (fst (snd (srtp_aes_icm_hisi_context_init h c k))) = key_size c"
proof -
  have s: "14 \<le> length (drop (key_size c) k)"
    using assms by simp
  note b = salted_block [OF s]
  show "offset (fst (snd (srtp_aes_icm_hisi_context_init h c k))) =
           take 14 (drop (key_size c) k) @ [0, 0]"
    using b by (simp add: srtp_aes_icm_hisi_context_init_def Let_def SRTP_SALT_LEN_def
        v128_set_to_zero_def malloc_def split: option.split prod.split)
  show "counter (fst (snd (srtp_aes_icm_hisi_context_init h c k))) =
           take 14 (drop (key_size c) k) @ [0, 0]"
    using b by (simp add: srtp_aes_icm_hisi_context_init_def Let_def SRTP_SALT_LEN_def
        v128_set_to_zero_def malloc_def split: option.split prod.split)
  show "key (fst (snd (srtp_aes_icm_hisi_context_init h c k))) \<noteq> None"
    by (simp add: srtp_aes_icm_hisi_context_init_def Let_def malloc_def
        split: option.split prod.split)
  show "key_size (fst (snd (srtp_aes_icm_hisi_context_init h c k))) = key_size c"
    by (simp add: srtp_aes_icm_hisi_context_init_def Let_def malloc_def
        split: option.split prod.split)
qed

text \<open>
  \<^verbatim>\<open>set_iv\<close> on a state without a key, and the context it leaves otherwise.
\<close>

lemma set_iv_no_key:
  "key c = None \<Longrightarrow>
   srtp_aes_icm_hisi_set_iv eng e h c iv dir = (srtp_err_status_bad_param, c, e)"
  by (simp add: srtp_aes_icm_hisi_set_iv_def)

lemma set_iv_ctx:
  "key c \<noteq> None \<Longrightarrow>
   fst (snd (srtp_aes_icm_hisi_set_iv eng e h c iv dir)) =
     c\<lparr>counter := v128_xor (offset c) (take 16 iv)\<rparr>"
  by (auto simp add: srtp_aes_icm_hisi_set_iv_def Let_def v128_copy_octet_string_def
      split: prod.split)

lemma v128_xor_nth:
  assumes "length x = 16" and "length y = 16" and "i < 16"
  shows "v128_xor x y ! i = x ! i XOR y ! i"
  using assms by (simp add: v128_xor_def)

lemma v128_xor_length:
  assumes "length x = 16" and "length y = 16"
  shows "length (v128_xor x y) = 16"
  using assms by (simp add: v128_xor_def)

lemma drop_14_v128_xor:
  assumes "length n = 16" and that: "length s = 14"
  shows "drop 14 (v128_xor (s @ [0, 0]) n) = drop 14 n"
proof (rule nth_equalityI)
  show "length (drop 14 (v128_xor (s @ [0, 0]) n)) = length (drop 14 n)"
    using assms that by (simp add: v128_xor_def)
next
  fix i
  assume "i < length (drop 14 (v128_xor (s @ [0, 0]) n))"
  then have i: "i < 2"
    using assms that by (simp add: v128_xor_def)
  then have "14 + i < 16" by simp
  then have "v128_xor (s @ [0, 0]) n ! (14 + i) = (s @ [0, 0]) ! (14 + i) XOR n ! (14 + i)"
    using assms that by (simp add: v128_xor_def)
  moreover have "(s @ [0, 0 :: octet]) ! (14 + i) = 0"
    using that i by (cases i) (simp_all add: nth_append)
  ultimately show "drop 14 (v128_xor (s @ [0, 0]) n) ! i = drop 14 n ! i"
    using assms that i by (simp add: v128_xor_def)
qed

text \<open>
  The AES-128 context after \<^verbatim>\<open>context_init\<close> with the test key, the store it leaves,
  and the context after a following \<^verbatim>\<open>set_iv\<close> with a nonce that ends in the octet 1.
\<close>

lemma keyed_128_ctx:
  "fst (snd keyed_128) =
     \<lparr>counter = [0xf0, 0xf1, 0xf2, 0xf3, 0xf4, 0xf5, 0xf6, 0xf7,
                 0xf8, 0xf9, 0xfa, 0xfb, 0xfc, 0xfd, 0, 0],
      offset = [0xf0, 0xf1, 0xf2, 0xf3, 0xf4, 0xf5, 0xf6, 0xf7,
                0xf8, 0xf9, 0xfa, 0xfb, 0xfc, 0xfd, 0, 0],
      key = Some 1, key_size = 16, key_type = HI_UNF_CIPHER_KEY_AES_128BIT, hCipher = 1\<rparr>"
  by (simp add: keyed_128_def srtp_aes_icm_hisi_context_init_def ctx_128_def zero_ctx_def
      empty_heap_def srtp_aes_icm_128_test_case_0_key_def Let_def SRTP_SALT_LEN_def
      SRTP_AES_128_KEY_LEN_def SRTP_AES_192_KEY_LEN_def SRTP_AES_256_KEY_LEN_def
      v128_set_to_zero_def memcpy_def malloc_def heap_memcpy_def numeral_eq_Suc)

lemma keyed_128_heap:
  "blocks (snd (snd keyed_128)) 1 =
     Some [0x2b, 0x7e, 0x15, 0x16, 0x28, 0xae, 0xd2, 0xa6,
           0xab, 0xf7, 0x15, 0x88, 0x09, 0xcf, 0x4f, 0x3c]"
  "brk (snd (snd keyed_128)) = 2"
  "released (snd (snd keyed_128)) = []"
  by (simp_all add: keyed_128_def srtp_aes_icm_hisi_context_init_def ctx_128_def zero_ctx_def
      empty_heap_def srtp_aes_icm_128_test_case_0_key_def Let_def SRTP_SALT_LEN_def
      SRTP_AES_128_KEY_LEN_def SRTP_AES_192_KEY_LEN_def SRTP_AES_256_KEY_LEN_def
      v128_set_to_zero_def memcpy_def malloc_def heap_memcpy_def numeral_eq_Suc)

lemma keyed_128_set_iv:
  "fst (snd (srtp_aes_icm_hisi_set_iv xor_engine 0 (snd (snd keyed_128)) (fst (snd keyed_128))
       [0, 0, 0, 0, 0, 0, 0, 0, 0, 0, 0, 0, 0, 0, 0, 1] srtp_direction_encrypt)) =
     \<lparr>counter = [0xf0, 0xf1, 0xf2, 0xf3, 0xf4, 0xf5, 0xf6, 0xf7,
                 0xf8, 0xf9, 0xfa, 0xfb, 0xfc, 0xfd, 0, 1],
      offset = [0xf0, 0xf1, 0xf2, 0xf3, 0xf4, 0xf5, 0xf6, 0xf7,
                0xf8, 0xf9, 0xfa, 0xfb, 0xfc, 0xfd, 0, 0],
      key = Some 1, key_size = 16, key_type = HI_UNF_CIPHER_KEY_AES_128BIT, hCipher = 1\<rparr>"
  by (simp add: keyed_128_ctx set_iv_ctx v128_xor_def)

text \<open>
  \<^verbatim>\<open>alloc\<close> for AES-128 and AES-256, with every resource available: the key size,
  the algorithm and the function table are those of the requested variant.
\<close>

lemma alloc_128_256:
  "srtp_aes_icm_hisi_alloc xor_engine 0 (Some zero_cipher) (Some zero_ctx) None 30 0 =
     Returned (srtp_err_status_ok,
               Some \<lparr>type = Some srtp_aes_icm_128,
                     state = Some \<lparr>counter = replicate 16 0, offset = replicate 16 0,
                                   key = None, key_size = 16,
                                   key_type = HI_UNF_CIPHER_KEY_AES_128BIT, hCipher = 1\<rparr>,
                     key_len = 30, algorithm = SRTP_AES_ICM_128\<rparr>,
               1, [Alloc_cipher, Alloc_ctx])"
  "srtp_aes_icm_hisi_alloc xor_engine 0 (Some zero_cipher) (Some zero_ctx) None 46 0 =
     Returned (srtp_err_status_ok,
               Some \<lparr>type = Some srtp_aes_icm_256,
                     state = Some \<lparr>counter = replicate 16 0, offset = replicate 16 0,
                                   key = None, key_size = 32,
                                   key_type = HI_UNF_CIPHER_KEY_AES_128BIT, hCipher = 1\<rparr>,
                     key_len = 46, algorithm = SRTP_AES_ICM_256\<rparr>,
               1, [Alloc_cipher, Alloc_ctx])"
  by (simp_all add: srtp_aes_icm_hisi_alloc_def fixture_defs const_defs)

section \<open>SetIV\<close>

text \<open>
  Claim C1. \<^verbatim>\<open>set_iv\<close> on a state whose key pointer is null returns
  \<^verbatim>\<open>srtp_err_status_bad_param\<close> and changes nothing. On a state with a key it leaves a
  16-octet counter whose octet \<open>i\<close>, for each \<open>i\<close> below 16, is octet \<open>i\<close> of the
  offset XOR octet \<open>i\<close> of the nonce, whatever the engine answers to the configuration
  that follows.
\<close>

theorem set_iv_counter:
  assumes "length (offset c) = 16" and "length iv = 16"
  shows "(key c = None \<longrightarrow>
            srtp_aes_icm_hisi_set_iv eng e h c iv dir = (srtp_err_status_bad_param, c, e)) \<and>
         (key c \<noteq> None \<longrightarrow>
            length (counter (fst (snd (srtp_aes_icm_hisi_set_iv eng e h c iv dir)))) = 16 \<and>
            (\<forall>i<16. counter (fst (snd (srtp_aes_icm_hisi_set_iv eng e h c iv dir))) ! i =
                       offset c ! i XOR iv ! i))"
proof (intro conjI impI)
  assume "key c = None"
  then show "srtp_aes_icm_hisi_set_iv eng e h c iv dir = (srtp_err_status_bad_param, c, e)"
    by (rule set_iv_no_key)
next
  assume k: "key c \<noteq> None"
  show "length (counter (fst (snd (srtp_aes_icm_hisi_set_iv eng e h c iv dir)))) = 16"
    using assms by (simp add: set_iv_ctx [OF k] v128_xor_length)
next
  assume k: "key c \<noteq> None"
  show "\<forall>i<16. counter (fst (snd (srtp_aes_icm_hisi_set_iv eng e h c iv dir))) ! i =
                 offset c ! i XOR iv ! i"
    using assms by (simp add: set_iv_ctx [OF k] v128_xor_nth)
qed

text \<open>
  The theorem at two inputs: a cleared context without a key, and the AES-128 context
  keyed with the test key, with a nonce whose last octet is 1.
\<close>

theorem set_iv_counter_witness:
  "length (offset zero_ctx) = 16 \<and>
   length (offset (fst (snd keyed_128))) = 16 \<and>
   length [0, 0, 0, 0, 0, 0, 0, 0, 0, 0, 0, 0, 0, 0, 0, 1 :: octet] = 16 \<and>
   key zero_ctx = None \<and>
   srtp_aes_icm_hisi_set_iv xor_engine 0 empty_heap zero_ctx
       [0, 0, 0, 0, 0, 0, 0, 0, 0, 0, 0, 0, 0, 0, 0, 1] srtp_direction_encrypt =
     (srtp_err_status_bad_param, zero_ctx, 0) \<and>
   key (fst (snd keyed_128)) \<noteq> None \<and>
   length (counter (fst (snd (srtp_aes_icm_hisi_set_iv xor_engine 0 (snd (snd keyed_128))
       (fst (snd keyed_128)) [0, 0, 0, 0, 0, 0, 0, 0, 0, 0, 0, 0, 0, 0, 0, 1]
       srtp_direction_encrypt)))) = 16 \<and>
   counter (fst (snd (srtp_aes_icm_hisi_set_iv xor_engine 0 (snd (snd keyed_128))
       (fst (snd keyed_128)) [0, 0, 0, 0, 0, 0, 0, 0, 0, 0, 0, 0, 0, 0, 0, 1]
       srtp_direction_encrypt))) ! 15 = 0 XOR 1"
proof -
  have l0: "length (offset zero_ctx) = 16"
    by (simp add: zero_ctx_def)
  have l1: "length (offset (fst (snd keyed_128))) = 16"
    by (simp add: keyed_128_ctx)
  have li: "length [0, 0, 0, 0, 0, 0, 0, 0, 0, 0, 0, 0, 0, 0, 0, 1 :: octet] = 16"
    by simp
  have k0: "key zero_ctx = None"
    by (simp add: zero_ctx_def)
  have k1: "key (fst (snd keyed_128)) \<noteq> None"
    by (simp add: keyed_128_ctx)
  have o15: "offset (fst (snd keyed_128)) ! 15 = 0"
    by (simp add: keyed_128_ctx)
  note a = set_iv_counter [OF l0 li, of xor_engine 0 empty_heap srtp_direction_encrypt]
  note b = set_iv_counter [OF l1 li, of xor_engine 0 "snd (snd keyed_128)"
      srtp_direction_encrypt]
  from a k0 have ra: "srtp_aes_icm_hisi_set_iv xor_engine 0 empty_heap zero_ctx
       [0, 0, 0, 0, 0, 0, 0, 0, 0, 0, 0, 0, 0, 0, 0, 1] srtp_direction_encrypt =
     (srtp_err_status_bad_param, zero_ctx, 0)"
    by blast
  from b k1 have rb: "length (counter (fst (snd (srtp_aes_icm_hisi_set_iv xor_engine 0
       (snd (snd keyed_128)) (fst (snd keyed_128))
       [0, 0, 0, 0, 0, 0, 0, 0, 0, 0, 0, 0, 0, 0, 0, 1] srtp_direction_encrypt)))) = 16"
    and rc: "\<forall>i<16. counter (fst (snd (srtp_aes_icm_hisi_set_iv xor_engine 0
       (snd (snd keyed_128)) (fst (snd keyed_128))
       [0, 0, 0, 0, 0, 0, 0, 0, 0, 0, 0, 0, 0, 0, 0, 1] srtp_direction_encrypt))) ! i =
       offset (fst (snd keyed_128)) ! i XOR
       [0, 0, 0, 0, 0, 0, 0, 0, 0, 0, 0, 0, 0, 0, 0, 1] ! i"
    by blast+
  from rc have "counter (fst (snd (srtp_aes_icm_hisi_set_iv xor_engine 0
       (snd (snd keyed_128)) (fst (snd keyed_128))
       [0, 0, 0, 0, 0, 0, 0, 0, 0, 0, 0, 0, 0, 0, 0, 1] srtp_direction_encrypt))) ! 15 =
       offset (fst (snd keyed_128)) ! 15 XOR
       [0, 0, 0, 0, 0, 0, 0, 0, 0, 0, 0, 0, 0, 0, 0, 1 :: octet] ! 15"
    by simp
  then have rd: "counter (fst (snd (srtp_aes_icm_hisi_set_iv xor_engine 0
       (snd (snd keyed_128)) (fst (snd keyed_128))
       [0, 0, 0, 0, 0, 0, 0, 0, 0, 0, 0, 0, 0, 0, 0, 1] srtp_direction_encrypt))) ! 15 =
       0 XOR 1"
    by (simp add: o15)
  show ?thesis
    using l0 l1 li k0 ra k1 rb rd by blast
qed

section \<open>Initialize\<close>

text \<open>
  Claim C2. When the key size of the state is 16, 24 or 32 and the key material holds at
  least key size plus 14 octets, \<^verbatim>\<open>context_init\<close> returns \<^verbatim>\<open>srtp_err_status_ok\<close> and
  octets 0 to 13 of both the offset and the counter are the 14 salt octets that follow
  the raw key in the key material, while octets 14 and 15 of both are zero.
\<close>

theorem context_init_salt:
  assumes "key_size c = SRTP_AES_128_KEY_LEN \<or> key_size c = SRTP_AES_192_KEY_LEN \<or>
           key_size c = SRTP_AES_256_KEY_LEN"
      and "key_size c + SRTP_SALT_LEN \<le> length k"
  shows "fst (srtp_aes_icm_hisi_context_init h c k) = srtp_err_status_ok \<and>
         take 14 (offset (fst (snd (srtp_aes_icm_hisi_context_init h c k)))) =
           take 14 (drop (key_size c) k) \<and>
         take 14 (counter (fst (snd (srtp_aes_icm_hisi_context_init h c k)))) =
           take 14 (drop (key_size c) k) \<and>
         drop 14 (offset (fst (snd (srtp_aes_icm_hisi_context_init h c k)))) = [0, 0] \<and>
         drop 14 (counter (fst (snd (srtp_aes_icm_hisi_context_init h c k)))) = [0, 0]"
proof -
  have len: "key_size c + 14 \<le> length k"
    using assms(2) by (simp add: SRTP_SALT_LEN_def)
  have st: "fst (srtp_aes_icm_hisi_context_init h c k) = srtp_err_status_ok"
    using assms(1)
    by (auto simp add: srtp_aes_icm_hisi_context_init_def Let_def malloc_def
        split: option.split prod.split)
  have l14: "length (take 14 (drop (key_size c) k)) = 14"
    using len by simp
  show ?thesis
    using st l14 by (simp add: context_init_fields [OF len])
qed

text \<open>
  The theorem at the AES-128 test key: the salt is \<open>f0 f1 ... fd\<close>.
\<close>

theorem context_init_salt_witness:
  "(key_size ctx_128 = SRTP_AES_128_KEY_LEN \<or> key_size ctx_128 = SRTP_AES_192_KEY_LEN \<or>
    key_size ctx_128 = SRTP_AES_256_KEY_LEN) \<and>
   key_size ctx_128 + SRTP_SALT_LEN \<le> length srtp_aes_icm_128_test_case_0_key \<and>
   fst keyed_128 = srtp_err_status_ok \<and>
   take 14 (offset (fst (snd keyed_128))) =
     [0xf0, 0xf1, 0xf2, 0xf3, 0xf4, 0xf5, 0xf6, 0xf7, 0xf8, 0xf9, 0xfa, 0xfb, 0xfc, 0xfd] \<and>
   take 14 (counter (fst (snd keyed_128))) =
     [0xf0, 0xf1, 0xf2, 0xf3, 0xf4, 0xf5, 0xf6, 0xf7, 0xf8, 0xf9, 0xfa, 0xfb, 0xfc, 0xfd] \<and>
   drop 14 (offset (fst (snd keyed_128))) = [0, 0] \<and>
   drop 14 (counter (fst (snd keyed_128))) = [0, 0]"
proof -
  have a: "key_size ctx_128 = SRTP_AES_128_KEY_LEN \<or> key_size ctx_128 = SRTP_AES_192_KEY_LEN \<or>
    key_size ctx_128 = SRTP_AES_256_KEY_LEN"
    by (simp add: ctx_128_def)
  have b: "key_size ctx_128 + SRTP_SALT_LEN \<le> length srtp_aes_icm_128_test_case_0_key"
    by (simp add: ctx_128_def const_defs srtp_aes_icm_128_test_case_0_key_def)
  have s: "take 14 (drop (key_size ctx_128) srtp_aes_icm_128_test_case_0_key) =
     [0xf0, 0xf1, 0xf2, 0xf3, 0xf4, 0xf5, 0xf6, 0xf7, 0xf8, 0xf9, 0xfa, 0xfb, 0xfc, 0xfd]"
    by (simp add: ctx_128_def const_defs srtp_aes_icm_128_test_case_0_key_def)
  show ?thesis
    using a b context_init_salt [OF a b, of empty_heap]
    unfolding keyed_128_def [symmetric] s by blast
qed

section \<open>The block-counter field\<close>

text \<open>
  Claim C3, as the code has it. After \<^verbatim>\<open>context_init\<close>, octets 14 and 15 of both the
  offset and the counter are zero. After a following \<^verbatim>\<open>set_iv\<close> with a 16-octet nonce,
  octets 14 and 15 of the offset are still zero, and octets 14 and 15 of the counter are
  octets 14 and 15 of the nonce: the XOR runs over all 16 octets and nothing clears the
  field afterwards.
\<close>

theorem block_counter_after_init_and_set_iv:
  assumes "key_size c + SRTP_SALT_LEN \<le> length k" and "length iv = 16"
  shows "drop 14 (offset (fst (snd (srtp_aes_icm_hisi_context_init h c k)))) = [0, 0] \<and>
         drop 14 (counter (fst (snd (srtp_aes_icm_hisi_context_init h c k)))) = [0, 0] \<and>
         drop 14 (offset (fst (snd (srtp_aes_icm_hisi_set_iv eng e
            (snd (snd (srtp_aes_icm_hisi_context_init h c k)))
            (fst (snd (srtp_aes_icm_hisi_context_init h c k))) iv dir)))) = [0, 0] \<and>
         drop 14 (counter (fst (snd (srtp_aes_icm_hisi_set_iv eng e
            (snd (snd (srtp_aes_icm_hisi_context_init h c k)))
            (fst (snd (srtp_aes_icm_hisi_context_init h c k))) iv dir)))) = drop 14 iv"
proof -
  define c1 where "c1 = fst (snd (srtp_aes_icm_hisi_context_init h c k))"
  define h1 where "h1 = snd (snd (srtp_aes_icm_hisi_context_init h c k))"
  define s where "s = take 14 (drop (key_size c) k)"
  have len: "key_size c + 14 \<le> length k"
    using assms(1) by (simp add: SRTP_SALT_LEN_def)
  have ls: "length s = 14"
    using len by (simp add: s_def)
  have off: "offset c1 = s @ [0, 0]" and cnt: "counter c1 = s @ [0, 0]"
    and k: "key c1 \<noteq> None"
    unfolding c1_def s_def by (rule context_init_fields [OF len])+
  have c2: "fst (snd (srtp_aes_icm_hisi_set_iv eng e h1 c1 iv dir)) =
              c1\<lparr>counter := v128_xor (offset c1) (take 16 iv)\<rparr>"
    by (rule set_iv_ctx [OF k])
  have a: "drop 14 (offset c1) = [0, 0]" and b: "drop 14 (counter c1) = [0, 0]"
    using ls by (simp_all add: off cnt)
  have d: "drop 14 (counter (fst (snd (srtp_aes_icm_hisi_set_iv eng e h1 c1 iv dir)))) =
             drop 14 iv"
    using drop_14_v128_xor [OF assms(2) ls] assms(2) by (simp add: c2 off)
  have f: "drop 14 (offset (fst (snd (srtp_aes_icm_hisi_set_iv eng e h1 c1 iv dir)))) = [0, 0]"
    using a by (simp add: c2)
  show ?thesis
    using a b d f unfolding c1_def h1_def by simp
qed

text \<open>
  The theorem at the AES-128 test key and a nonce whose last octet is 1.
\<close>

theorem block_counter_after_init_and_set_iv_witness:
  "key_size ctx_128 + SRTP_SALT_LEN \<le> length srtp_aes_icm_128_test_case_0_key \<and>
   length [0, 0, 0, 0, 0, 0, 0, 0, 0, 0, 0, 0, 0, 0, 0, 1 :: octet] = 16 \<and>
   drop 14 (offset (fst (snd keyed_128))) = [0, 0] \<and>
   drop 14 (counter (fst (snd keyed_128))) = [0, 0] \<and>
   drop 14 (offset (fst (snd (srtp_aes_icm_hisi_set_iv xor_engine 0 (snd (snd keyed_128))
       (fst (snd keyed_128)) [0, 0, 0, 0, 0, 0, 0, 0, 0, 0, 0, 0, 0, 0, 0, 1]
       srtp_direction_encrypt)))) = [0, 0] \<and>
   drop 14 (counter (fst (snd (srtp_aes_icm_hisi_set_iv xor_engine 0 (snd (snd keyed_128))
       (fst (snd keyed_128)) [0, 0, 0, 0, 0, 0, 0, 0, 0, 0, 0, 0, 0, 0, 0, 1]
       srtp_direction_encrypt)))) = [0, 1]"
proof -
  have a: "key_size ctx_128 + SRTP_SALT_LEN \<le> length srtp_aes_icm_128_test_case_0_key"
    by (simp add: ctx_128_def const_defs srtp_aes_icm_128_test_case_0_key_def)
  have b: "length [0, 0, 0, 0, 0, 0, 0, 0, 0, 0, 0, 0, 0, 0, 0, 1 :: octet] = 16"
    by simp
  have d: "drop 14 [0, 0, 0, 0, 0, 0, 0, 0, 0, 0, 0, 0, 0, 0, 0, 1 :: octet] = [0, 1]"
    by simp
  show ?thesis
    using a b block_counter_after_init_and_set_iv [OF a b, of empty_heap xor_engine 0
        srtp_direction_encrypt]
    unfolding keyed_128_def [symmetric] d by blast
qed

text \<open>
  Claim C3 as stated fails for the counter after \<^verbatim>\<open>set_iv\<close>: with the AES-128 test
  key and a nonce whose last octet is 1, the counter ends in \<open>00 01\<close>.
\<close>

theorem block_counter_after_set_iv_counterexample:
  "\<not> (drop 14 (counter (fst (snd (srtp_aes_icm_hisi_set_iv xor_engine 0
          (snd (snd keyed_128)) (fst (snd keyed_128))
          [0, 0, 0, 0, 0, 0, 0, 0, 0, 0, 0, 0, 0, 0, 0, 1] srtp_direction_encrypt)))) = [0, 0])"
  by (simp add: keyed_128_set_iv)

section \<open>Allocate\<close>

text \<open>
  Claim C4, evaluated for AES-192. With key length 38, zero-filled fresh objects and an
  engine that serves every call, \<^verbatim>\<open>alloc\<close> returns \<^verbatim>\<open>srtp_err_status_ok\<close>, but the
  branch of the switch for this length is empty: the key size stays 0 instead of 24, the
  algorithm stays \<^verbatim>\<open>SRTP_NULL_CIPHER\<close> and the function table pointer stays null.
\<close>

theorem alloc_192_leaves_variant_unset:
  "srtp_aes_icm_hisi_alloc xor_engine 0 (Some zero_cipher) (Some zero_ctx) None 38 0 =
     Returned (srtp_err_status_ok,
               Some \<lparr>type = None,
                     state = Some \<lparr>counter = replicate 16 0, offset = replicate 16 0,
                                   key = None, key_size = 0,
                                   key_type = HI_UNF_CIPHER_KEY_AES_128BIT, hCipher = 1\<rparr>,
                     key_len = 38, algorithm = SRTP_NULL_CIPHER\<rparr>,
               1, [Alloc_cipher, Alloc_ctx])"
  by (simp add: srtp_aes_icm_hisi_alloc_def fixture_defs const_defs)

text \<open>
  Claim C5. For every key length other than 30, 38 and 46, \<^verbatim>\<open>alloc\<close> returns
  \<^verbatim>\<open>srtp_err_status_bad_param\<close>, makes no allocator call, leaves the caller's reference
  \<^verbatim>\<open>*c\<close> as it was and does not touch the engine.
\<close>

theorem alloc_rejects_other_key_lengths:
  assumes "klen \<noteq> 30" and "klen \<noteq> 38" and "klen \<noteq> 46"
  shows "srtp_aes_icm_hisi_alloc eng e new_c new_icm cref klen tlen =
           Returned (srtp_err_status_bad_param, cref, e, [])"
  using assms by (simp add: srtp_aes_icm_hisi_alloc_def const_defs)

text \<open>
  The theorem at key length 16 (a raw AES-128 key length, without the salt).
\<close>

theorem alloc_rejects_other_key_lengths_witness:
  "(16::int) \<noteq> 30 \<and> (16::int) \<noteq> 38 \<and> (16::int) \<noteq> 46 \<and>
   srtp_aes_icm_hisi_alloc xor_engine 0 (Some zero_cipher) (Some zero_ctx) None 16 0 =
     Returned (srtp_err_status_bad_param, None, 0, [])"
proof -
  have a: "(16::int) \<noteq> 30" and b: "(16::int) \<noteq> 38" and c: "(16::int) \<noteq> 46"
    by simp_all
  show ?thesis
    using a b c alloc_rejects_other_key_lengths [OF a b c, of xor_engine 0 "Some zero_cipher"
        "Some zero_ctx" None 0]
    by blast
qed

section \<open>Releasing the key buffer\<close>

text \<open>
  Claim C6, evaluated on a context that holds the AES-128 test key in the buffer at
  address 1. A second \<^verbatim>\<open>context_init\<close> passes that buffer to \<^verbatim>\<open>free\<close> with the 16 key
  octets still in it. \<^verbatim>\<open>dealloc\<close> clears and frees the context structure only: the
  store is returned unchanged, so the key buffer is neither cleared nor freed and still
  holds the key octets.
\<close>

theorem key_buffer_released_unzeroed:
  "released (snd (snd (srtp_aes_icm_hisi_context_init (snd (snd keyed_128))
       (fst (snd keyed_128)) srtp_aes_icm_256_test_case_0_key))) =
     [[0x2b, 0x7e, 0x15, 0x16, 0x28, 0xae, 0xd2, 0xa6,
       0xab, 0xf7, 0x15, 0x88, 0x09, 0xcf, 0x4f, 0x3c]] \<and>
   srtp_aes_icm_hisi_dealloc xor_engine 1 (snd (snd keyed_128))
       (Some (zero_cipher\<lparr>state := Some (fst (snd keyed_128))\<rparr>)) =
     Returned (srtp_err_status_ok, [Free_ctx zero_ctx, Free_cipher], snd (snd keyed_128), 1) \<and>
   blocks (snd (snd keyed_128)) 1 =
     Some [0x2b, 0x7e, 0x15, 0x16, 0x28, 0xae, 0xd2, 0xa6,
           0xab, 0xf7, 0x15, 0x88, 0x09, 0xcf, 0x4f, 0x3c] \<and>
   released (snd (snd keyed_128)) = []"
proof (intro conjI)
  have live: "blocks (snd (snd keyed_128)) (Suc 0) =
     Some [0x2b, 0x7e, 0x15, 0x16, 0x28, 0xae, 0xd2, 0xa6,
           0xab, 0xf7, 0x15, 0x88, 0x09, 0xcf, 0x4f, 0x3c]"
    using keyed_128_heap(1) by simp
  show "released (snd (snd (srtp_aes_icm_hisi_context_init (snd (snd keyed_128))
       (fst (snd keyed_128)) srtp_aes_icm_256_test_case_0_key))) =
     [[0x2b, 0x7e, 0x15, 0x16, 0x28, 0xae, 0xd2, 0xa6,
       0xab, 0xf7, 0x15, 0x88, 0x09, 0xcf, 0x4f, 0x3c]]"
    by (simp add: keyed_128_ctx keyed_128_heap live srtp_aes_icm_hisi_context_init_def Let_def
        malloc_def free_def heap_memcpy_def const_defs split: prod.split)
next
  show "srtp_aes_icm_hisi_dealloc xor_engine 1 (snd (snd keyed_128))
       (Some (zero_cipher\<lparr>state := Some (fst (snd keyed_128))\<rparr>)) =
     Returned (srtp_err_status_ok, [Free_ctx zero_ctx, Free_cipher], snd (snd keyed_128), 1)"
    by (simp add: keyed_128_ctx srtp_aes_icm_hisi_dealloc_def octet_string_set_to_zero_def
        fixture_defs)
next
  show "blocks (snd (snd keyed_128)) 1 =
     Some [0x2b, 0x7e, 0x15, 0x16, 0x28, 0xae, 0xd2, 0xa6,
           0xab, 0xf7, 0x15, 0x88, 0x09, 0xcf, 0x4f, 0x3c]"
    by (rule keyed_128_heap)
next
  show "released (snd (snd keyed_128)) = []"
    by (rule keyed_128_heap)
qed

section \<open>Deallocate\<close>

text \<open>
  Claim C7, as the code has it. \<^verbatim>\<open>dealloc\<close> on a null cipher reference frees nothing,
  leaves the store and the engine untouched, and returns
  \<^verbatim>\<open>srtp_err_status_bad_param\<close>.
\<close>

theorem dealloc_null_bad_param:
  "srtp_aes_icm_hisi_dealloc eng e h None = Returned (srtp_err_status_bad_param, [], h, e)"
  by (simp add: srtp_aes_icm_hisi_dealloc_def)

text \<open>
  Claim C7 as stated fails: the call on a null reference does not return
  \<^verbatim>\<open>srtp_err_status_ok\<close>.
\<close>

theorem dealloc_null_counterexample:
  "srtp_aes_icm_hisi_dealloc xor_engine 0 empty_heap None \<noteq>
     Returned (srtp_err_status_ok, [], empty_heap, 0)"
  by (simp add: srtp_aes_icm_hisi_dealloc_def)

section \<open>Transform\<close>

text \<open>
  Claim C8, as the code has it. The assertion at the head of \<^verbatim>\<open>encrypt\<close> holds exactly
  when the length is strictly below 8192: the comparison with the size of the local
  array is strict, so a length of 8192 itself stops the call.
\<close>

theorem encrypt_assertion_below_8192:
  "srtp_aes_icm_hisi_encrypt eng e c buf enc_len \<noteq> Aborted \<longleftrightarrow> unat enc_len < 8192"
proof -
  have "enc_len < 8192 \<longleftrightarrow> unat enc_len < 8192"
    by (simp add: word_less_nat_alt)
  then show ?thesis
    by (simp add: srtp_aes_icm_hisi_encrypt_def split: prod.split)
qed

text \<open>
  The theorem at the lengths 8191 and 8192.
\<close>

theorem encrypt_assertion_below_8192_witness:
  "srtp_aes_icm_hisi_encrypt xor_engine 0 zero_ctx [1, 2, 3, 4] 8191 \<noteq> Aborted \<and>
   unat (8191 :: 32 word) < 8192 \<and>
   srtp_aes_icm_hisi_encrypt xor_engine 0 zero_ctx [1, 2, 3, 4] 8192 = Aborted \<and>
   \<not> unat (8192 :: 32 word) < 8192"
proof -
  have a: "unat (8191 :: 32 word) < 8192" and b: "\<not> unat (8192 :: 32 word) < 8192"
    by simp_all
  show ?thesis
    using a b encrypt_assertion_below_8192 [of xor_engine 0 zero_ctx "[1, 2, 3, 4]" 8191]
      encrypt_assertion_below_8192 [of xor_engine 0 zero_ctx "[1, 2, 3, 4]" 8192]
    by blast
qed

text \<open>
  Claim C8 as stated fails at the length 8192, which does not exceed 8192.
\<close>

theorem encrypt_assertion_counterexample:
  "\<not> ((8192 :: 32 word) \<le> 8192 \<longrightarrow>
       srtp_aes_icm_hisi_encrypt xor_engine 0 zero_ctx [1, 2, 3, 4] 8192 \<noteq> Aborted)"
  by (simp add: srtp_aes_icm_hisi_encrypt_def)

text \<open>
  Claim C9. Whenever \<^verbatim>\<open>encrypt\<close> returns, with any status, the counter of the context
  is the counter it had on entry.
\<close>

theorem encrypt_keeps_counter:
  assumes "srtp_aes_icm_hisi_encrypt eng e c buf enc_len = Returned (st, c', buf', n', e')"
  shows "counter c' = counter c"
  using assms
  by (auto simp add: srtp_aes_icm_hisi_encrypt_def split: if_splits prod.splits)

text \<open>
  The theorem at a three-octet transform on the keyed AES-128 context.
\<close>

theorem encrypt_keeps_counter_witness:
  "srtp_aes_icm_hisi_encrypt xor_engine 0 (fst (snd keyed_128)) [1, 2, 3, 4] 3 =
     Returned (srtp_err_status_ok, fst (snd keyed_128), [0x5B, 0x58, 0x59, 4], 3, 0) \<and>
   counter (fst (snd keyed_128)) = counter (fst (snd keyed_128))"
proof -
  have r: "srtp_aes_icm_hisi_encrypt xor_engine 0 (fst (snd keyed_128)) [1, 2, 3, 4] 3 =
     Returned (srtp_err_status_ok, fst (snd keyed_128), [0x5B, 0x58, 0x59, 4], 3, 0)"
    by (simp add: srtp_aes_icm_hisi_encrypt_def xor_engine_def memcpy_def)
  show ?thesis
    using r encrypt_keeps_counter [OF r] by blast
qed

text \<open>
  Claim C10. When the length passes the assertion and is not zero, so that the engine is
  called, and the engine's transform reports an error, \<^verbatim>\<open>encrypt\<close> returns
  \<^verbatim>\<open>srtp_err_status_cipher_fail\<close> with the caller's buffer, the length and the context as
  they were on entry.
\<close>

theorem encrypt_engine_failure:
  assumes "enc_len < 8192" and "enc_len \<noteq> 0"
      and "fst (HI_UNF_CIPHER_EncryptVir eng e (hCipher c) buf enc_len) \<noteq> 0"
  shows "srtp_aes_icm_hisi_encrypt eng e c buf enc_len =
           Returned (srtp_err_status_cipher_fail, c, buf, enc_len,
                     snd (snd (HI_UNF_CIPHER_EncryptVir eng e (hCipher c) buf enc_len)))"
  using assms
  by (cases "HI_UNF_CIPHER_EncryptVir eng e (hCipher c) buf enc_len")
    (simp add: srtp_aes_icm_hisi_encrypt_def)

text \<open>
  The theorem at a three-octet transform on an engine whose transform fails.
\<close>

theorem encrypt_engine_failure_witness:
  "(3 :: 32 word) < 8192 \<and> (3 :: 32 word) \<noteq> 0 \<and>
   fst (HI_UNF_CIPHER_EncryptVir faulty_engine 0 (hCipher zero_ctx) [1, 2, 3, 4] 3) \<noteq> 0 \<and>
   srtp_aes_icm_hisi_encrypt faulty_engine 0 zero_ctx [1, 2, 3, 4] 3 =
     Returned (srtp_err_status_cipher_fail, zero_ctx, [1, 2, 3, 4], 3, 0)"
proof -
  have a: "(3 :: 32 word) < 8192" and b: "(3 :: 32 word) \<noteq> 0"
    by simp_all
  have f: "fst (HI_UNF_CIPHER_EncryptVir faulty_engine 0 (hCipher zero_ctx) [1, 2, 3, 4] 3) \<noteq> 0"
    by (simp add: faulty_engine_def xor_engine_def)
  have s: "snd (snd (HI_UNF_CIPHER_EncryptVir faulty_engine 0 (hCipher zero_ctx) [1, 2, 3, 4] 3)) = 0"
    by (simp add: faulty_engine_def xor_engine_def)
  show ?thesis
    using a b f encrypt_engine_failure [OF a b f] unfolding s by blast
qed

end
